theory Spec2Isabelle
  imports Main "HOL-Library.Sublist" "HOL-Library.Word"
begin

section \<open>The live (websocket) connection of ws.go\<close>

subsection \<open>Message types and payloads\<close>

text \<open>
  \<^verbatim>\<open>type ResponseType string\<close>: a response type is any string; eight of them are
  named constants. A frame read from the server may carry any string as its type.
\<close>

type_synonym ResponseType = string

definition WildcardResponse :: ResponseType where
  "WildcardResponse = ''*''"

definition ErrorResponse :: ResponseType where
  "ErrorResponse = ''ERROR''"

definition InvalidRequestResponse :: ResponseType where
  "InvalidRequestResponse = ''INVALIDREQUEST''"

definition RecordMessageResponse :: ResponseType where
  "RecordMessageResponse = ''RECORD''"

definition HeartbeatResponse :: ResponseType where
  "HeartbeatResponse = ''HEARTBEAT''"

definition SuccessResponse :: ResponseType where
  "SuccessResponse = ''SUCCESS''"

definition StatsResponse :: ResponseType where
  "StatsResponse = ''STATS''"

definition EndResponse :: ResponseType where
  "EndResponse = ''END''"

record MetaData =
  Timestamp :: int
  KeySize :: int
  ValueSize :: int
  Partition :: int
  Offset :: int

record Data =
  Key :: string
  Value :: string
  Metadata :: MetaData
  RowNum :: int

record LiveResponse =
  Type :: ResponseType
  Data :: Data

subsection \<open>Errors, panics and the transport\<close>

text \<open>
  A Go \<^verbatim>\<open>error\<close> value, as far as ws.go looks at it: the read loop asks whether
  its dynamic type is \<^verbatim>\<open>*net.OpError\<close>, and \<^verbatim>\<open>%v\<close> prints its message.
  \<open>CloseError\<close> is gorilla/websocket's \<^verbatim>\<open>*websocket.CloseError\<close>, which a read returns
  when the peer closes or drops the connection: its close code, and the message its
  \<^verbatim>\<open>Error\<close> method gives. Every other dynamic type (a JSON syntax error, the value that
  \<^verbatim>\<open>fmt.Errorf\<close> returns) is \<open>ErrorString\<close>.
\<close>

datatype error = OpError string | CloseError int string | ErrorString string

fun Error :: "error \<Rightarrow> string" where
  "Error (OpError msg) = msg"
| "Error (CloseError code msg) = msg"
| "Error (ErrorString msg) = msg"

text \<open>The type assertion \<^verbatim>\<open>err.(*net.OpError)\<close>.\<close>

fun is_OpError :: "error \<Rightarrow> bool" where
  "is_OpError (OpError msg) = True"
| "is_OpError (CloseError code msg) = False"
| "is_OpError (ErrorString msg) = False"

text \<open>
  The specification's words, not the code's: a transport-level fault is a fault of the
  connection (a network operation that failed, a connection closed or dropped), as
  opposed to a fault of the content of a frame. The code's own test is \<open>is_OpError\<close>.
\<close>

fun spec_transport_level :: "error \<Rightarrow> bool" where
  "spec_transport_level (OpError msg) = True"
| "spec_transport_level (CloseError code msg) = True"
| "spec_transport_level (ErrorString msg) = False"

text \<open>A call either returns or panics (with the runtime's message).\<close>

datatype 'a outcome = Return 'a | Panic string

text \<open>
  The transport handle \<^verbatim>\<open>*websocket.Conn\<close> belongs to gorilla/websocket. Of it the
  model keeps what ws.go can observe: how many times \<^verbatim>\<open>Close\<close> has run on it and
  what that call returns.
\<close>

record Conn =
  released :: nat
  closeResult :: "error option"

record Dialer =
  Dialer_HandshakeTimeout :: int
  Dialer_ReadBufferSize :: int
  Dialer_WriteBufferSize :: int

subsection \<open>Configuration and connection\<close>

typedecl tls_Config

record LiveConfiguration =
  Host :: string
  Token :: string
  Debug :: bool
  SQL :: string
  Live :: bool
  Stats :: int
  HandshakeTimeout :: int
  ReadBufferSize :: int
  WriteBufferSize :: int
  TLSClientConfig :: "tls_Config option"

text \<open>
  A listener is \<^verbatim>\<open>func(LiveResponse) error\<close>; the model keeps the error it returns
  (\<open>None\<close> is \<^verbatim>\<open>nil\<close>). What a listener does besides returning is outside the model.
\<close>

type_synonym LiveListener = "LiveResponse \<Rightarrow> error option"

text \<open>
  The struct \<^verbatim>\<open>LiveConnection\<close>. \<open>conn\<close> is \<open>None\<close> for the nil pointer.
  \<open>receiveStop\<close> is the channel \<^verbatim>\<open>chan struct{}\<close>, on which nothing is ever sent: the
  model keeps whether it has been closed. \<open>errors\<close> is the unbuffered channel
  \<^verbatim>\<open>chan error\<close>: the model keeps the faults sent on it, oldest first, each send
  taken as received by the owner. The lock \<^verbatim>\<open>mu\<close> guards \<open>listeners\<close>; its
  critical sections are single steps of the model.
\<close>

record LiveConnection =
  conn :: "Conn option"
  config :: LiveConfiguration
  receiveStop :: bool
  closed :: "32 word"
  authToken :: string
  endpoint :: string
  listeners :: "ResponseType \<rightharpoonup> LiveListener list"
  errors :: "error list"

subsection \<open>Library functions the session builder calls\<close>

text \<open>
  \<^verbatim>\<open>strings.Replace(s, old, new, 1)\<close> of the Go standard library: the leftmost
  occurrence of \<open>old\<close> in \<open>s\<close> is replaced by \<open>new\<close>; without an occurrence \<open>s\<close> is
  returned as it is.
\<close>

fun strings_Replace1 :: "string \<Rightarrow> string \<Rightarrow> string \<Rightarrow> string" where
  "strings_Replace1 [] old new = (if old = [] then new else [])"
| "strings_Replace1 (c # s) old new =
     (if prefix old (c # s) then new @ drop (length old) (c # s)
      else c # strings_Replace1 s old new)"

text \<open>
  \<^verbatim>\<open>url.QueryEscape\<close> of the Go standard library (net/url, \<^verbatim>\<open>escape\<close> in mode
  \<^verbatim>\<open>encodeQueryComponent\<close>): letters, digits and \<^verbatim>\<open>- _ . ~\<close> are kept, a space
  becomes \<^verbatim>\<open>+\<close>, and every other byte becomes \<^verbatim>\<open>%\<close> and two upper-case hex digits.
\<close>

definition shouldEscape :: "char \<Rightarrow> bool" where
  "shouldEscape c =
     (let n = (of_char c :: nat) in
      if (97 \<le> n \<and> n \<le> 122) \<or> (65 \<le> n \<and> n \<le> 90) \<or> (48 \<le> n \<and> n \<le> 57) then False
      else if c \<in> set ''-_.~'' then False
      else if c \<in> set ''$&+,/:;=?@'' then True
      else True)"

definition upperhex :: "nat \<Rightarrow> char" where
  "upperhex n = ''0123456789ABCDEF'' ! n"

fun url_QueryEscape :: "string \<Rightarrow> string" where
  "url_QueryEscape [] = []"
| "url_QueryEscape (c # s) =
     (if c = CHR '' '' then CHR ''+'' # url_QueryEscape s
      else if shouldEscape c
        then CHR ''%'' # upperhex (of_char c div 16) # upperhex (of_char c mod 16)
               # url_QueryEscape s
      else c # url_QueryEscape s)"

text \<open>\<^verbatim>\<open>fmt.Errorf\<close> with the verbs already filled in: a new error with that message.\<close>

definition fmt_Errorf :: "string \<Rightarrow> error" where
  "fmt_Errorf msg = ErrorString msg"

text \<open>\<^verbatim>\<open>time.Second\<close>, in nanoseconds.\<close>

definition Second :: int where
  "Second = 1000000000"

subsection \<open>OpenLiveConnection and start\<close>

text \<open>
  \<^verbatim>\<open>start\<close> dials the endpoint. The dial is the environment's: \<open>dial\<close> maps the dialer
  and the endpoint to the error or the transport handle that \<^verbatim>\<open>dialer.Dial\<close>
  returns. The third component of the result says whether \<^verbatim>\<open>go c.readLoop()\<close> was
  executed. \<open>dialer_of\<close> is the \<^verbatim>\<open>websocket.Dialer\<close> literal of \<^verbatim>\<open>start\<close> (its
  \<^verbatim>\<open>Proxy\<close> field reads the process environment and is left out).
\<close>

definition dialer_of :: "LiveConfiguration \<Rightarrow> Dialer" where
  "dialer_of cfg =
     \<lparr>Dialer_HandshakeTimeout = HandshakeTimeout cfg,
      Dialer_ReadBufferSize = ReadBufferSize cfg,
      Dialer_WriteBufferSize = WriteBufferSize cfg\<rparr>"

definition start ::
  "(Dialer \<Rightarrow> string \<Rightarrow> error + Conn) \<Rightarrow> LiveConnection \<Rightarrow> error option \<times> LiveConnection \<times> bool"
where
  "start dial c =
     (let dialer = dialer_of (config c)
      in case dial dialer (endpoint c) of
           Inl err \<Rightarrow>
             (Some (fmt_Errorf (''connect failure for ['' @ Host (config c) @ '']: '' @ Error err)),
              c, False)
         | Inr cn \<Rightarrow> (None, c\<lparr>conn := Some cn\<rparr>, True))"

text \<open>
  \<^verbatim>\<open>OpenLiveConnection\<close> returns the pointer \<^verbatim>\<open>c\<close> (never nil, so always \<open>Some\<close>)
  and the error of \<^verbatim>\<open>c.start()\<close>; the third component is the one of \<open>start\<close>.
  The calls of the logger are left out.
\<close>

definition OpenLiveConnection ::
  "(Dialer \<Rightarrow> string \<Rightarrow> error + Conn) \<Rightarrow> LiveConfiguration
     \<Rightarrow> LiveConnection option \<times> error option \<times> bool"
where
  "OpenLiveConnection dial config0 =
     (let config1 = (if HandshakeTimeout config0 = 0
                     then config0\<lparr>HandshakeTimeout := 45 * Second\<rparr> else config0);
          config2 = config1\<lparr>Host := strings_Replace1 (Host config1) ''https://'' ''wss://''\<rparr>;
          config3 = config2\<lparr>Host := strings_Replace1 (Host config2) ''https://'' ''ws://''\<rparr>;
          query = url_QueryEscape (SQL config3);
          endpoint0 = Host config3 @ ''/api/ws/v1/sql/execute?sql='' @ query
                        @ ''&token='' @ Token config3;
          endpoint1 = (if Live config3
                       then Host config3 @ ''/api/ws/v1/sql/execute?sql='' @ query
                              @ ''&token='' @ Token config3 @ ''&live=true''
                       else endpoint0);
          c = \<lparr>conn = None, config = config3, receiveStop = False, closed = 0,
               authToken = [], endpoint = endpoint1, listeners = Map.empty, errors = []\<rparr>
      in case start dial c of (err, c', launched) \<Rightarrow> (Some c', err, launched))"

subsection \<open>Close\<close>

text \<open>
  \<^verbatim>\<open>Close\<close>: the atomic load, the atomic store, \<^verbatim>\<open>close(c.receiveStop)\<close> (which
  panics on a channel that is already closed) and \<^verbatim>\<open>c.conn.Close()\<close> (which
  dereferences a nil \<^verbatim>\<open>*websocket.Conn\<close>: a panic).
\<close>

definition Close :: "LiveConnection \<Rightarrow> error option outcome \<times> LiveConnection" where
  "Close c =
     (if closed c > 0 then (Return None, c)
      else
        let c1 = c\<lparr>closed := 1\<rparr> in
        if receiveStop c1 then (Panic ''close of closed channel'', c1)
        else
          let c2 = c1\<lparr>receiveStop := True\<rparr> in
          case conn c2 of
            None \<Rightarrow> (Panic ''invalid memory address or nil pointer dereference'', c2)
          | Some t \<Rightarrow> (Return (closeResult t),
                       c2\<lparr>conn := Some (t\<lparr>released := Suc (released t)\<rparr>)\<rparr>))"

text \<open>Calling \<^verbatim>\<open>Close\<close> \<open>n\<close> times in sequence: the results in call order, and the final state.\<close>

fun Close_times :: "nat \<Rightarrow> LiveConnection \<Rightarrow> error option outcome list \<times> LiveConnection" where
  "Close_times 0 c = ([], c)"
| "Close_times (Suc n) c =
     (case Close c of (r, c1) \<Rightarrow>
        (case Close_times n c1 of (rs, c2) \<Rightarrow> (r # rs, c2)))"

subsection \<open>Listener registry\<close>

text \<open>
  \<^verbatim>\<open>c.listeners[typ]\<close> of a missing key is the nil slice, to which \<^verbatim>\<open>append\<close>
  appends.
\<close>

definition callbacks_for :: "LiveConnection \<Rightarrow> ResponseType \<Rightarrow> LiveListener list" where
  "callbacks_for c typ = (case listeners c typ of None \<Rightarrow> [] | Some cbs \<Rightarrow> cbs)"

text \<open>
  \<^verbatim>\<open>On\<close>. For the wildcard it calls \<^verbatim>\<open>OnError\<close>, ..., \<^verbatim>\<open>OnEnd\<close> in this order, each
  of which is \<^verbatim>\<open>c.On(<its type>, cb)\<close>; the recursion ends because none of the seven
  types is the wildcard.
\<close>

function On :: "ResponseType \<Rightarrow> LiveListener \<Rightarrow> LiveConnection \<Rightarrow> LiveConnection" where
  "On typ cb c =
     (if typ = WildcardResponse then
        On EndResponse cb
          (On StatsResponse cb
            (On SuccessResponse cb
              (On HeartbeatResponse cb
                (On RecordMessageResponse cb
                  (On InvalidRequestResponse cb
                    (On ErrorResponse cb c))))))
      else c\<lparr>listeners := (listeners c)(typ \<mapsto> callbacks_for c typ @ [cb])\<rparr>)"
  by pat_completeness auto
termination
  by (relation "measure (\<lambda>(typ, cb, c). if typ = WildcardResponse then 1 else 0)")
     (simp_all add: WildcardResponse_def ErrorResponse_def InvalidRequestResponse_def
        RecordMessageResponse_def HeartbeatResponse_def SuccessResponse_def
        StatsResponse_def EndResponse_def)

declare On.simps [simp del]

text \<open>A sequence of calls of \<^verbatim>\<open>On\<close>, first to last.\<close>

fun registrations :: "(ResponseType \<times> LiveListener) list \<Rightarrow> LiveConnection \<Rightarrow> LiveConnection" where
  "registrations [] c = c"
| "registrations ((typ, cb) # regs) c = registrations regs (On typ cb c)"

definition OnError :: "LiveListener \<Rightarrow> LiveConnection \<Rightarrow> LiveConnection" where
  "OnError cb c = On ErrorResponse cb c"

definition OnInvalidRequest :: "LiveListener \<Rightarrow> LiveConnection \<Rightarrow> LiveConnection" where
  "OnInvalidRequest cb c = On InvalidRequestResponse cb c"

definition OnRecordMessage :: "LiveListener \<Rightarrow> LiveConnection \<Rightarrow> LiveConnection" where
  "OnRecordMessage cb c = On RecordMessageResponse cb c"

definition OnHeartbeat :: "LiveListener \<Rightarrow> LiveConnection \<Rightarrow> LiveConnection" where
  "OnHeartbeat cb c = On HeartbeatResponse cb c"

definition OnSuccess :: "LiveListener \<Rightarrow> LiveConnection \<Rightarrow> LiveConnection" where
  "OnSuccess cb c = On SuccessResponse cb c"

definition OnStats :: "LiveListener \<Rightarrow> LiveConnection \<Rightarrow> LiveConnection" where
  "OnStats cb c = On StatsResponse cb c"

definition OnEnd :: "LiveListener \<Rightarrow> LiveConnection \<Rightarrow> LiveConnection" where
  "OnEnd cb c = On EndResponse cb c"

subsection \<open>The read loop\<close>

text \<open>What \<^verbatim>\<open>c.conn.ReadJSON(&resp)\<close> gives: the decoded message, or an error.\<close>

datatype read_result = Decoded LiveResponse | ReadError error

text \<open>
  What an observer of the read loop sees, in order: a read of the transport returning, a
  listener called with a message, and a fault sent on the error channel.
\<close>

datatype event = Read read_result | Invoked LiveListener LiveResponse | Sent error

fun invocations :: "event list \<Rightarrow> (LiveListener \<times> LiveResponse) list" where
  "invocations [] = []"
| "invocations (Read r # evs) = invocations evs"
| "invocations (Invoked cb resp # evs) = (cb, resp) # invocations evs"
| "invocations (Sent err # evs) = invocations evs"

fun faults :: "event list \<Rightarrow> error list" where
  "faults [] = []"
| "faults (Read r # evs) = faults evs"
| "faults (Invoked cb resp # evs) = faults evs"
| "faults (Sent err # evs) = err # faults evs"

definition sendErr :: "error \<Rightarrow> LiveConnection \<Rightarrow> LiveConnection \<times> event list" where
  "sendErr err c = (c\<lparr>errors := errors c @ [err]\<rparr>, [Sent err])"

text \<open>
  The \<^verbatim>\<open>for _, cb := range callbacks\<close> of the loop body: each listener is called with
  the message; an error it returns is sent on, and the range goes on.
\<close>

fun fire :: "LiveListener list \<Rightarrow> LiveResponse \<Rightarrow> LiveConnection \<Rightarrow> LiveConnection \<times> event list" where
  "fire [] resp c = (c, [])"
| "fire (cb # cbs) resp c =
     (case cb resp of
        None \<Rightarrow> (case fire cbs resp c of (c', evs) \<Rightarrow> (c', Invoked cb resp # evs))
      | Some err \<Rightarrow>
          (case sendErr err c of (c1, evs1) \<Rightarrow>
             (case fire cbs resp c1 of (c2, evs2) \<Rightarrow> (c2, Invoked cb resp # evs1 @ evs2))))"

text \<open>
  The \<^verbatim>\<open>default\<close> branch of the loop's \<^verbatim>\<open>select\<close>, from the return of the read
  on: the forwarding of a read error, or the lookup and the calls of the listeners.
\<close>

fun receive :: "read_result \<Rightarrow> LiveConnection \<Rightarrow> LiveConnection \<times> event list" where
  "receive (ReadError err) c =
     (if is_OpError err then sendErr err c
      else sendErr (fmt_Errorf (''live: read json: ['' @ Error err @ '']'')) c)"
| "receive (Decoded resp) c =
     (case listeners c (Type resp) of
        None \<Rightarrow> (c, [])
      | Some callbacks \<Rightarrow> fire callbacks resp c)"

text \<open>
  The loop over the results of the successive reads. With \<open>receiveStop\<close> closed the loop
  returns and the deferred \<^verbatim>\<open>c.Close()\<close> runs (\<open>Stopped\<close>, with its outcome); when the
  results are used up the loop is waiting in the next read (\<open>Reading\<close>).
\<close>

datatype loop_status = Reading | Stopped "error option outcome"

fun readLoop :: "read_result list \<Rightarrow> LiveConnection \<Rightarrow> loop_status \<times> LiveConnection \<times> event list" where
  "readLoop [] c =
     (if receiveStop c then (case Close c of (r, c') \<Rightarrow> (Stopped r, c', []))
      else (Reading, c, []))"
| "readLoop (r # rs) c =
     (if receiveStop c then (case Close c of (r, c') \<Rightarrow> (Stopped r, c', []))
      else
        case receive r c of (c1, evs1) \<Rightarrow>
          (case readLoop rs c1 of (st, c2, evs2) \<Rightarrow> (st, c2, Read r # evs1 @ evs2)))"

text \<open>
  The fault the loop forwards for a failed read, and the events of one read result, written
  as plain functions of the registry: what the loop is compared with.
\<close>

definition forwarded :: "error \<Rightarrow> error" where
  "forwarded err =
     (if is_OpError err then err
      else ErrorString (''live: read json: ['' @ Error err @ '']''))"

fun dispatch_events :: "LiveListener list \<Rightarrow> LiveResponse \<Rightarrow> event list" where
  "dispatch_events [] resp = []"
| "dispatch_events (cb # cbs) resp =
     Invoked cb resp # (case cb resp of None \<Rightarrow> [] | Some err \<Rightarrow> [Sent err])
       @ dispatch_events cbs resp"

fun events_of :: "LiveConnection \<Rightarrow> read_result \<Rightarrow> event list" where
  "events_of c (ReadError err) = [Sent (forwarded err)]"
| "events_of c (Decoded resp) = dispatch_events (callbacks_for c (Type resp)) resp"

definition iteration_events :: "LiveConnection \<Rightarrow> read_result \<Rightarrow> event list" where
  "iteration_events c r = Read r # events_of c r"

fun decoded :: "read_result list \<Rightarrow> LiveResponse list" where
  "decoded [] = []"
| "decoded (Decoded resp # rs) = resp # decoded rs"
| "decoded (ReadError err # rs) = decoded rs"

subsection \<open>Two concurrent calls of Close\<close>

text \<open>
  \<^verbatim>\<open>Close\<close> is four steps on the shared connection: \<^verbatim>\<open>atomic.LoadUint32\<close> with the
  test, \<^verbatim>\<open>atomic.StoreUint32\<close>, \<^verbatim>\<open>close(c.receiveStop)\<close>, \<^verbatim>\<open>c.conn.Close()\<close>. A goroutine
  inside \<^verbatim>\<open>Close\<close> is at one of them, or has returned, or has panicked.
\<close>

datatype close_pc =
  AtLoad | AtStore | AtCloseChan | AtConnClose | Returned "error option" | Panicked string

fun close_step :: "close_pc \<Rightarrow> LiveConnection \<Rightarrow> close_pc \<times> LiveConnection" where
  "close_step AtLoad c = (if closed c > 0 then (Returned None, c) else (AtStore, c))"
| "close_step AtStore c = (AtCloseChan, c\<lparr>closed := 1\<rparr>)"
| "close_step AtCloseChan c =
     (if receiveStop c then (Panicked ''close of closed channel'', c)
      else (AtConnClose, c\<lparr>receiveStop := True\<rparr>))"
| "close_step AtConnClose c =
     (case conn c of
        None \<Rightarrow> (Panicked ''invalid memory address or nil pointer dereference'', c)
      | Some t \<Rightarrow> (Returned (closeResult t),
                   c\<lparr>conn := Some (t\<lparr>released := Suc (released t)\<rparr>)\<rparr>))"
| "close_step (Returned r) c = (Returned r, c)"
| "close_step (Panicked msg) c = (Panicked msg, c)"

text \<open>
  Two goroutines, each inside one call of \<^verbatim>\<open>Close\<close> on the same connection. A schedule
  names, step by step, the goroutine that moves (\<open>False\<close> the first, \<open>True\<close> the second).
\<close>

fun run_two :: "bool list \<Rightarrow> close_pc \<times> close_pc \<times> LiveConnection \<Rightarrow> close_pc \<times> close_pc \<times> LiveConnection" where
  "run_two [] s = s"
| "run_two (False # sched) (p, q, c) =
     (case close_step p c of (p', c') \<Rightarrow> run_two sched (p', q, c'))"
| "run_two (True # sched) (p, q, c) =
     (case close_step q c of (q', c') \<Rightarrow> run_two sched (p, q', c'))"

text \<open>A goroutine is in the release sequence once it is past the test of the flag.\<close>

fun releasing :: "close_pc \<Rightarrow> bool" where
  "releasing AtStore = True"
| "releasing AtCloseChan = True"
| "releasing AtConnClose = True"
| "releasing p = False"

text \<open>One goroutine running its four steps alone, as an outcome: what \<open>Close\<close> is.\<close>

fun pc_outcome :: "close_pc \<Rightarrow> error option outcome option" where
  "pc_outcome (Returned r) = Some (Return r)"
| "pc_outcome (Panicked msg) = Some (Panic msg)"
| "pc_outcome p = None"

text \<open>The operations on a session, for the history of its closed flag.\<close>

datatype operation =
  Register ResponseType LiveListener | Receive read_result | CallClose | Teardown

fun apply_operation :: "operation \<Rightarrow> LiveConnection \<Rightarrow> LiveConnection" where
  "apply_operation (Register typ cb) c = On typ cb c"
| "apply_operation (Receive r) c = fst (receive r c)"
| "apply_operation CallClose c = snd (Close c)"
| "apply_operation Teardown c = snd (Close c)"

section \<open>The quota delete commands of quota_command.go\<close>

text \<open>
  The remote client's delete operations, as the commands call them: each takes the
  positional arguments (the property names to remove) and returns an error or nil.
\<close>

record QuotaClient =
  DeleteQuotaForAllUsers :: "string list \<Rightarrow> error option"
  DeleteQuotaForUser :: "string \<Rightarrow> string list \<Rightarrow> error option"
  DeleteQuotaForUserClient :: "string \<Rightarrow> string \<Rightarrow> string list \<Rightarrow> error option"
  DeleteQuotaForUserAllClients :: "string \<Rightarrow> string list \<Rightarrow> error option"
  DeleteQuotaForAllClients :: "string list \<Rightarrow> error option"
  DeleteQuotaForClient :: "string \<Rightarrow> string list \<Rightarrow> error option"

text \<open>
  \<^verbatim>\<open>createQuotaPayload\<close>, bound to the flags \<^verbatim>\<open>--quota-user\<close> and
  \<^verbatim>\<open>--quota-client\<close>; its \<^verbatim>\<open>Config\<close> field is not read by the delete commands.
\<close>

record createQuotaPayload =
  User :: string
  ClientID :: string

text \<open>
  What a run of a command does: \<^verbatim>\<open>bite.PrintInfo\<close> with the formatted message, or the
  return of the client's error, after \<^verbatim>\<open>bite.FriendlyError\<close> has registered a message
  for the not-found case (\<open>None\<close> where the command registers none).
\<close>

datatype cmd_result = PrintInfo string | Failed error "string option"

definition apostrophe :: string where
  "apostrophe = [CHR 0x27]"

text \<open>The \<^verbatim>\<open>RunE\<close> of \<^verbatim>\<open>quota users delete\<close>.\<close>

definition quotaUsersDelete :: "QuotaClient \<Rightarrow> createQuotaPayload \<Rightarrow> string list \<Rightarrow> cmd_result" where
  "quotaUsersDelete client quota args =
     (let actionMsg = (if length args > 0 then ''update'' else ''delete'');
          user = User quota;
          clientID = ClientID quota
      in
      if user \<noteq> [] then
        if clientID \<noteq> [] then
          if clientID = ''all'' \<or> clientID = ''*'' then
            (case DeleteQuotaForUserAllClients client user args of
               Some err \<Rightarrow>
                 Failed err (Some (''unable to '' @ actionMsg @ '', quota for user: '' @ apostrophe
                   @ user @ apostrophe @ '' does not exist''))
             | None \<Rightarrow> PrintInfo (''Quota for user '' @ user @ '' deleted for all clients''))
          else
            (case DeleteQuotaForUserClient client user clientID args of
               Some err \<Rightarrow>
                 Failed err (Some (''unable to '' @ actionMsg @ '', quota for user: '' @ apostrophe
                   @ user @ apostrophe @ '' and client: '' @ apostrophe @ clientID @ apostrophe
                   @ '' does not exist''))
             | None \<Rightarrow>
                 PrintInfo (''Quota for user '' @ user @ '' deleted for client '' @ clientID))
        else
          (case DeleteQuotaForUser client user args of
             Some err \<Rightarrow>
               Failed err (Some (''unable to '' @ actionMsg @ '', quota for user: '' @ apostrophe
                 @ user @ apostrophe @ '' does not exist''))
           | None \<Rightarrow> PrintInfo (''Quota for user '' @ user @ '' '' @ actionMsg @ ''d''))
      else
        (case DeleteQuotaForAllUsers client args of
           Some err \<Rightarrow> Failed err None
         | None \<Rightarrow> PrintInfo (''Default user quota '' @ actionMsg @ ''d'')))"

text \<open>The \<^verbatim>\<open>RunE\<close> of \<^verbatim>\<open>quota clients delete\<close>.\<close>

definition quotaClientsDelete :: "QuotaClient \<Rightarrow> createQuotaPayload \<Rightarrow> string list \<Rightarrow> cmd_result" where
  "quotaClientsDelete client quota args =
     (let actionMsg = (if length args > 0 then ''update'' else ''delete'');
          id = ClientID quota
      in
      if id \<noteq> [] \<and> id \<noteq> ''all'' \<and> id \<noteq> ''*'' then
        (case DeleteQuotaForClient client id args of
           Some err \<Rightarrow>
             Failed err (Some (''unable to '' @ actionMsg @ '', quota for client: '' @ apostrophe
               @ id @ apostrophe @ '' does not exist''))
         | None \<Rightarrow> PrintInfo (''Quota for client '' @ id @ '' '' @ actionMsg @ ''d''))
      else
        (case DeleteQuotaForAllClients client args of
           Some err \<Rightarrow> Failed err None
         | None \<Rightarrow> PrintInfo (''Default client quota '' @ actionMsg @ ''d'')))"

section \<open>Concrete inputs\<close>

definition example_config :: LiveConfiguration where
  "example_config =
     \<lparr>Host = ''https://example.com'', Token = ''abc'', Debug = False,
      SQL = ''SELECT * FROM t'', Live = True, Stats = 0, HandshakeTimeout = 0,
      ReadBufferSize = 0, WriteBufferSize = 0, TLSClientConfig = None\<rparr>"

definition refusing_dial :: "Dialer \<Rightarrow> string \<Rightarrow> error + Conn" where
  "refusing_dial d ep = Inl (OpError ''dial tcp: connection refused'')"

definition accepting_dial :: "Dialer \<Rightarrow> string \<Rightarrow> error + Conn" where
  "accepting_dial d ep = Inr \<lparr>released = 0, closeResult = None\<rparr>"

definition open_session :: LiveConnection where
  "open_session =
     \<lparr>conn = Some \<lparr>released = 0, closeResult = None\<rparr>, config = example_config,
      receiveStop = False, closed = 0, authToken = [], endpoint = [],
      listeners = Map.empty, errors = []\<rparr>"

definition refused_session :: LiveConnection where
  "refused_session =
     \<lparr>conn = None,
      config = example_config\<lparr>Host := ''wss://example.com'', HandshakeTimeout := 45000000000\<rparr>,
      receiveStop = False, closed = 0, authToken = [],
      endpoint = ''wss://example.com/api/ws/v1/sql/execute?sql=SELECT+%2A+FROM+t&token=abc&live=true'',
      listeners = Map.empty, errors = []\<rparr>"

definition quiet_listener :: LiveListener where
  "quiet_listener resp = None"

text \<open>The read error after the server has dropped the connection (close code 1006).\<close>

definition abnormal_closure :: error where
  "abnormal_closure =
     CloseError 1006 ''websocket: close 1006 (abnormal closure): unexpected EOF''"

definition failing_listener :: LiveListener where
  "failing_listener resp = Some (ErrorString ''listener failed'')"

definition message :: "ResponseType \<Rightarrow> LiveResponse" where
  "message typ =
     \<lparr>Type = typ,
      Data = \<lparr>Key = [], Value = [],
              Metadata = \<lparr>Timestamp = 0, KeySize = 0, ValueSize = 0, Partition = 0, Offset = 0\<rparr>,
              RowNum = 0\<rparr>\<rparr>"

definition accepting_client :: QuotaClient where
  "accepting_client =
     \<lparr>DeleteQuotaForAllUsers = (\<lambda>args. None),
      DeleteQuotaForUser = (\<lambda>user args. None),
      DeleteQuotaForUserClient = (\<lambda>user clientID args. None),
      DeleteQuotaForUserAllClients = (\<lambda>user args. None),
      DeleteQuotaForAllClients = (\<lambda>args. None),
      DeleteQuotaForClient = (\<lambda>clientID args. None)\<rparr>"

section \<open>Properties of the session builder\<close>

lemmas ResponseType_defs =
  WildcardResponse_def ErrorResponse_def InvalidRequestResponse_def
  RecordMessageResponse_def HeartbeatResponse_def SuccessResponse_def
  StatsResponse_def EndResponse_def

lemma strings_Replace1_at_front:
  "old \<noteq> [] \<Longrightarrow> strings_Replace1 (old @ rest) old new = new @ rest"
  by (cases old) simp_all

lemma strings_Replace1_after_wss:
  "strings_Replace1 (''wss://'' @ rest) ''https://'' new
     = ''wss://'' @ strings_Replace1 rest ''https://'' new"
  by simp

text \<open>
  The two replacements of \<^verbatim>\<open>OpenLiveConnection\<close> on a host that begins with
  \<^verbatim>\<open>https://\<close>: the first rewrites the prefix, the second (which looks for
  \<^verbatim>\<open>https://\<close> again) can only act behind it.
\<close>

lemma normalized_https_host:
  "strings_Replace1 (strings_Replace1 (''https://'' @ rest) ''https://'' ''wss://'')
       ''https://'' ''ws://''
     = ''wss://'' @ strings_Replace1 rest ''https://'' ''ws://''"
proof -
  have "strings_Replace1 (''https://'' @ rest) ''https://'' ''wss://'' = ''wss://'' @ rest"
    by (rule strings_Replace1_at_front) simp
  then show ?thesis
    by (simp only: strings_Replace1_after_wss)
qed

lemma OpenLiveConnection_built_endpoint:
  "map_option endpoint (fst (OpenLiveConnection dial cfg)) =
     Some (strings_Replace1 (strings_Replace1 (Host cfg) ''https://'' ''wss://'')
             ''https://'' ''ws://''
           @ ''/api/ws/v1/sql/execute?sql='' @ url_QueryEscape (SQL cfg)
           @ ''&token='' @ Token cfg @ (if Live cfg then ''&live=true'' else []))"
  by (simp add: OpenLiveConnection_def start_def Let_def split: sum.splits)

text \<open>
  C1 (as amended). For the configuration with host \<^verbatim>\<open>https://example.com\<close>, SQL text
  \<^verbatim>\<open>SELECT * FROM t\<close>, token \<^verbatim>\<open>abc\<close> and live mode enabled, OpenLiveConnection builds
  exactly the endpoint
  \<^verbatim>\<open>wss://example.com/api/ws/v1/sql/execute?sql=SELECT+%2A+FROM+t&token=abc&live=true\<close>
  (\<^verbatim>\<open>url.QueryEscape\<close> writes a space as \<^verbatim>\<open>+\<close>); and for every host beginning with
  \<^verbatim>\<open>https://\<close> that prefix is rewritten to \<^verbatim>\<open>wss://\<close> in the built endpoint, which
  is then the rest of the host, the fixed path, the escaped query, the token and the
  live marker.
\<close>

theorem OpenLiveConnection_endpoint:
  "(Host cfg = ''https://example.com'' \<and> SQL cfg = ''SELECT * FROM t'' \<and> Token cfg = ''abc''
      \<and> Live cfg \<longrightarrow>
      map_option endpoint (fst (OpenLiveConnection dial cfg)) =
        Some ''wss://example.com/api/ws/v1/sql/execute?sql=SELECT+%2A+FROM+t&token=abc&live=true'')
   \<and> (Host cfg = ''https://'' @ rest \<longrightarrow>
      map_option endpoint (fst (OpenLiveConnection dial cfg)) =
        Some (''wss://'' @ strings_Replace1 rest ''https://'' ''ws://''
              @ ''/api/ws/v1/sql/execute?sql='' @ url_QueryEscape (SQL cfg)
              @ ''&token='' @ Token cfg @ (if Live cfg then ''&live=true'' else [])))"
proof (intro conjI impI)
  assume "Host cfg = ''https://example.com'' \<and> SQL cfg = ''SELECT * FROM t''
      \<and> Token cfg = ''abc'' \<and> Live cfg"
  then show "map_option endpoint (fst (OpenLiveConnection dial cfg)) =
        Some ''wss://example.com/api/ws/v1/sql/execute?sql=SELECT+%2A+FROM+t&token=abc&live=true''"
    by (simp add: OpenLiveConnection_built_endpoint shouldEscape_def upperhex_def)
next
  assume h: "Host cfg = ''https://'' @ rest"
  show "map_option endpoint (fst (OpenLiveConnection dial cfg)) =
        Some (''wss://'' @ strings_Replace1 rest ''https://'' ''ws://''
              @ ''/api/ws/v1/sql/execute?sql='' @ url_QueryEscape (SQL cfg)
              @ ''&token='' @ Token cfg @ (if Live cfg then ''&live=true'' else []))"
    unfolding OpenLiveConnection_built_endpoint h normalized_https_host by simp
qed

theorem OpenLiveConnection_endpoint_witness:
  "Host example_config = ''https://'' @ ''example.com''
   \<and> SQL example_config = ''SELECT * FROM t'' \<and> Token example_config = ''abc''
   \<and> Live example_config
   \<and> map_option endpoint (fst (OpenLiveConnection accepting_dial example_config)) =
        Some ''wss://example.com/api/ws/v1/sql/execute?sql=SELECT+%2A+FROM+t&token=abc&live=true''"
  using OpenLiveConnection_endpoint [of example_config accepting_dial "''example.com''"]
  by (simp add: example_config_def)

text \<open>
  C1 as stated fails: the endpoint built for that configuration is not the string with
  \<^verbatim>\<open>%20\<close> for the spaces of the query.
\<close>

theorem OpenLiveConnection_endpoint_percent20_counterexample:
  "map_option endpoint (fst (OpenLiveConnection accepting_dial example_config)) \<noteq>
     Some ''wss://example.com/api/ws/v1/sql/execute?sql=SELECT%20%2A%20FROM%20t&token=abc&live=true''"
  by (simp add: OpenLiveConnection_built_endpoint example_config_def shouldEscape_def
        upperhex_def)

section \<open>Connect failure, and Close\<close>

lemma start_dial_fails:
  "dial (dialer_of (config c)) (endpoint c) = Inl err \<Longrightarrow>
   start dial c =
     (Some (ErrorString (''connect failure for ['' @ Host (config c) @ '']: '' @ Error err)),
      c, False)"
  by (simp add: start_def fmt_Errorf_def)

lemma start_dial_succeeds:
  "dial (dialer_of (config c)) (endpoint c) = Inr cn \<Longrightarrow>
   start dial c = (None, c\<lparr>conn := Some cn\<rparr>, True)"
  by (simp add: start_def)

lemma start_keeps:
  "start dial c = (r, c', launched) \<Longrightarrow>
   config c' = config c \<and> endpoint c' = endpoint c \<and> closed c' = closed c
   \<and> receiveStop c' = receiveStop c \<and> listeners c' = listeners c \<and> errors c' = errors c"
  by (auto simp add: start_def Let_def split: sum.splits)

lemma OpenLiveConnection_unfold:
  "\<exists>cfg' ep. OpenLiveConnection dial cfg =
     (case start dial \<lparr>conn = None, config = cfg', receiveStop = False, closed = 0,
                        authToken = [], endpoint = ep, listeners = Map.empty, errors = []\<rparr>
      of (err, c', launched) \<Rightarrow> (Some c', err, launched))"
  unfolding OpenLiveConnection_def Let_def by (intro exI) (rule refl)

lemma OpenLiveConnection_start:
  assumes "OpenLiveConnection dial cfg = (p, r, launched)"
  shows "\<exists>c0 c. conn c0 = None \<and> closed c0 = 0 \<and> \<not> receiveStop c0 \<and> listeners c0 = Map.empty
      \<and> errors c0 = [] \<and> start dial c0 = (r, c, launched) \<and> p = Some c"
proof -
  from OpenLiveConnection_unfold [of dial cfg] obtain cfg' ep where
    u: "OpenLiveConnection dial cfg =
     (case start dial \<lparr>conn = None, config = cfg', receiveStop = False, closed = 0,
                        authToken = [], endpoint = ep, listeners = Map.empty, errors = []\<rparr>
      of (err, c', launched) \<Rightarrow> (Some c', err, launched))" by blast
  define c0 where "c0 = \<lparr>conn = None, config = cfg', receiveStop = False, closed = 0,
                        authToken = [], endpoint = ep, listeners = Map.empty, errors = []\<rparr>"
  obtain r' c' l' where st: "start dial c0 = (r', c', l')"
    by (cases "start dial c0") auto
  from u assms st have "p = Some c'" "r = r'" "launched = l'"
    by (simp_all add: c0_def)
  with st have "start dial c0 = (r, c', launched) \<and> p = Some c'" by simp
  moreover have "conn c0 = None \<and> closed c0 = 0 \<and> \<not> receiveStop c0 \<and> listeners c0 = Map.empty
      \<and> errors c0 = []" by (simp add: c0_def)
  ultimately show ?thesis by blast
qed

lemma OpenLiveConnection_dial_fails:
  assumes "OpenLiveConnection dial cfg = (Some c, r, launched)"
    and "dial (dialer_of (config c)) (endpoint c) = Inl err"
  shows "r = Some (ErrorString (''connect failure for ['' @ Host (config c) @ '']: '' @ Error err))"
    and "\<not> launched" and "conn c = None" and "closed c = 0" and "\<not> receiveStop c"
proof -
  from assms(1) obtain c0 where c0: "conn c0 = None" "closed c0 = 0" "\<not> receiveStop c0"
    and st: "start dial c0 = (r, c, launched)"
    using OpenLiveConnection_start by blast
  from start_keeps [OF st] have same: "config c = config c0" "endpoint c = endpoint c0"
    "closed c = closed c0" "receiveStop c = receiveStop c0" by simp_all
  from assms(2) same have "dial (dialer_of (config c0)) (endpoint c0) = Inl err" by simp
  from start_dial_fails [of dial c0 err, OF this] st
  have eq: "r = Some (ErrorString (''connect failure for ['' @ Host (config c0) @ '']: '' @ Error err))"
    "c = c0" "launched = False" by simp_all
  show "r = Some (ErrorString (''connect failure for ['' @ Host (config c) @ '']: '' @ Error err))"
    using eq by simp
  show "\<not> launched" using eq by simp
  show "conn c = None" using eq c0 by simp
  show "closed c = 0" using eq c0 by simp
  show "\<not> receiveStop c" using eq c0 by simp
qed

text \<open>
  C7. For every configuration for which the upgrade handshake fails (the dial of the
  built endpoint returns an error), session creation returns a fault whose message holds
  both the target host and the transport error's message, and the read loop is not
  started: neither by \<^verbatim>\<open>OpenLiveConnection\<close> nor by \<^verbatim>\<open>start\<close> on the returned
  connection.
\<close>

theorem connect_failure_returned:
  assumes "OpenLiveConnection dial cfg = (p, r, launched)"
    and "p = Some c"
    and "dial (dialer_of (config c)) (endpoint c) = Inl err"
  shows "r = Some (ErrorString (''connect failure for ['' @ Host (config c) @ '']: '' @ Error err))
         \<and> \<not> launched
         \<and> start dial c = (r, c, False)"
proof -
  from assms have o: "OpenLiveConnection dial cfg = (Some c, r, launched)" by simp
  note f = OpenLiveConnection_dial_fails [OF o assms(3)]
  from f(1) f(2) start_dial_fails [of dial c err, OF assms(3)] show ?thesis by simp
qed

lemma OpenLiveConnection_refused:
  "OpenLiveConnection refusing_dial example_config =
     (Some refused_session,
      Some (ErrorString ''connect failure for [wss://example.com]: dial tcp: connection refused''),
      False)"
  by (simp add: OpenLiveConnection_def start_def Let_def example_config_def refusing_dial_def
        refused_session_def fmt_Errorf_def Second_def shouldEscape_def upperhex_def)

theorem connect_failure_returned_witness:
  "OpenLiveConnection refusing_dial example_config =
     (Some refused_session,
      Some (ErrorString ''connect failure for [wss://example.com]: dial tcp: connection refused''),
      False)
   \<and> refusing_dial (dialer_of (config refused_session)) (endpoint refused_session)
       = Inl (OpError ''dial tcp: connection refused'')
   \<and> start refusing_dial refused_session =
       (Some (ErrorString ''connect failure for [wss://example.com]: dial tcp: connection refused''),
        refused_session, False)"
proof -
  have d: "refusing_dial (dialer_of (config refused_session)) (endpoint refused_session)
       = Inl (OpError ''dial tcp: connection refused'')"
    by (simp add: refusing_dial_def)
  from connect_failure_returned [OF OpenLiveConnection_refused refl d] OpenLiveConnection_refused d
  show ?thesis by simp
qed

text \<open>
  C10. For every configuration for which the dial fails, \<^verbatim>\<open>OpenLiveConnection\<close>
  returns a non-nil connection together with the non-nil error; that connection carries
  no transport handle, and calling \<^verbatim>\<open>Close\<close> on it panics on the nil transport.
\<close>

theorem failed_dial_leaves_nil_transport:
  assumes "OpenLiveConnection dial cfg = (p, r, launched)"
    and "p = Some c"
    and "dial (dialer_of (config c)) (endpoint c) = Inl err"
  shows "p \<noteq> None \<and> r \<noteq> None \<and> conn c = None
         \<and> fst (Close c) = Panic ''invalid memory address or nil pointer dereference''"
proof -
  from assms have o: "OpenLiveConnection dial cfg = (Some c, r, launched)" by simp
  note f = OpenLiveConnection_dial_fails [OF o assms(3)]
  have "fst (Close c) = Panic ''invalid memory address or nil pointer dereference''"
    using f(3) f(4) f(5) by (simp add: Close_def)
  with f(1) f(3) assms(2) show ?thesis by simp
qed


theorem failed_dial_leaves_nil_transport_witness:
  "refusing_dial (dialer_of (config refused_session)) (endpoint refused_session)
       = Inl (OpError ''dial tcp: connection refused'')
   \<and> fst (OpenLiveConnection refusing_dial example_config) = Some refused_session
   \<and> fst (snd (OpenLiveConnection refusing_dial example_config)) \<noteq> None
   \<and> conn refused_session = None
   \<and> fst (Close refused_session) = Panic ''invalid memory address or nil pointer dereference''"
proof -
  have d: "refusing_dial (dialer_of (config refused_session)) (endpoint refused_session)
       = Inl (OpError ''dial tcp: connection refused'')"
    by (simp add: refusing_dial_def)
  from failed_dial_leaves_nil_transport [OF OpenLiveConnection_refused refl d]
    OpenLiveConnection_refused d
  show ?thesis by simp
qed

lemma Close_closed: "0 < closed c \<Longrightarrow> Close c = (Return None, c)"
  by (simp add: Close_def)

lemma Close_open:
  "closed c = 0 \<Longrightarrow> \<not> receiveStop c \<Longrightarrow> conn c = Some t \<Longrightarrow>
   Close c = (Return (closeResult t),
              c\<lparr>closed := 1, receiveStop := True,
                conn := Some (t\<lparr>released := Suc (released t)\<rparr>)\<rparr>)"
  by (simp add: Close_def)

lemma Close_times_closed:
  "0 < closed c \<Longrightarrow> Close_times n c = (replicate n (Return None), c)"
  by (induction n) (simp_all add: Close_closed)

text \<open>
  C3. For every open session (it holds a transport handle, its flag is unset and its
  stop channel open, as after a successful \<^verbatim>\<open>OpenLiveConnection\<close>) and every
  \<open>N > 1\<close>, calling \<^verbatim>\<open>Close\<close> \<open>N\<close> times in sequence returns nil on calls 2 to
  \<open>N\<close>, and the transport's release runs exactly once, on the first call: the release
  count is one more than before after the first call, and still that after the last.
\<close>

theorem Close_releases_once:
  assumes "conn c = Some t" and "closed c = 0" and "\<not> receiveStop c" and "1 < N"
  shows "fst (Close_times N c) = Return (closeResult t) # replicate (N - 1) (Return None)
         \<and> map_option released (conn (snd (Close c))) = Some (Suc (released t))
         \<and> map_option released (conn (snd (Close_times N c))) = Some (Suc (released t))"
proof -
  from assms(4) obtain n where N: "N = Suc n" by (cases N) auto
  define c1 where "c1 = c\<lparr>closed := 1, receiveStop := True,
                conn := Some (t\<lparr>released := Suc (released t)\<rparr>)\<rparr>"
  have first: "Close c = (Return (closeResult t), c1)"
    unfolding c1_def using assms(1-3) by (simp add: Close_open)
  have "0 < closed c1" by (simp add: c1_def)
  then have rest: "Close_times n c1 = (replicate n (Return None), c1)"
    by (rule Close_times_closed)
  have "Close_times N c = (Return (closeResult t) # replicate n (Return None), c1)"
    by (simp add: N first rest)
  moreover have "map_option released (conn c1) = Some (Suc (released t))"
    by (simp add: c1_def)
  ultimately show ?thesis by (simp add: N first)
qed

theorem Close_releases_once_witness:
  "conn open_session = Some \<lparr>released = 0, closeResult = None\<rparr>
   \<and> closed open_session = 0 \<and> \<not> receiveStop open_session \<and> (1::nat) < 3
   \<and> fst (Close_times 3 open_session) = [Return None, Return None, Return None]
   \<and> map_option released (conn (snd (Close open_session))) = Some 1
   \<and> map_option released (conn (snd (Close_times 3 open_session))) = Some 1"
proof -
  have h: "conn open_session = Some \<lparr>released = 0, closeResult = None\<rparr>"
    "closed open_session = 0" "\<not> receiveStop open_session" "(1::nat) < 3"
    by (simp_all add: open_session_def)
  from Close_releases_once [OF h] h show ?thesis
    by (simp add: numeral_3_eq_3)
qed

lemma OpenLiveConnection_dial_succeeds:
  assumes "OpenLiveConnection dial cfg = (Some c, r, launched)"
    and "dial (dialer_of (config c)) (endpoint c) = Inr cn"
  shows "r = None" and "launched" and "conn c = Some cn" and "closed c = 0"
    and "\<not> receiveStop c" and "listeners c = Map.empty"
proof -
  from assms(1) obtain c0 where c0: "conn c0 = None" "closed c0 = 0" "\<not> receiveStop c0"
      "listeners c0 = Map.empty"
    and st: "start dial c0 = (r, c, launched)"
    using OpenLiveConnection_start by blast
  from start_keeps [OF st] have same: "config c = config c0" "endpoint c = endpoint c0"
    "closed c = closed c0" "receiveStop c = receiveStop c0" "listeners c = listeners c0"
    by simp_all
  from assms(2) same have "dial (dialer_of (config c0)) (endpoint c0) = Inr cn" by simp
  from start_dial_succeeds [of dial c0 cn, OF this] st
  have eq: "r = None" "c = c0\<lparr>conn := Some cn\<rparr>" "launched = True" by simp_all
  show "r = None" using eq by simp
  show "launched" using eq by simp
  show "conn c = Some cn" using eq by simp
  show "closed c = 0" using same c0 by simp
  show "\<not> receiveStop c" using same c0 by simp
  show "listeners c = Map.empty" using same c0 by simp
qed

text \<open>
  A session that \<^verbatim>\<open>OpenLiveConnection\<close> returned with a nil error is open: it holds a
  transport handle, its flag is 0, its stop channel is open, and its read loop was started.
\<close>

lemma OpenLiveConnection_without_error:
  assumes "OpenLiveConnection dial cfg = (Some c, None, launched)"
  shows "\<exists>t. conn c = Some t" and "closed c = 0" and "\<not> receiveStop c" and "launched"
proof -
  from assms obtain c0 where c0: "closed c0 = 0" "\<not> receiveStop c0"
    and st: "start dial c0 = (None, c, launched)"
    using OpenLiveConnection_start by blast
  from start_keeps [OF st] c0 show "closed c = 0" and "\<not> receiveStop c" by simp_all
  from st show "\<exists>t. conn c = Some t" and "launched"
    by (auto simp add: start_def Let_def split: sum.splits)
qed

section \<open>The listener registry\<close>

lemma On_concrete:
  "tag \<noteq> WildcardResponse \<Longrightarrow>
   On tag cb c = c\<lparr>listeners := (listeners c)(tag \<mapsto> callbacks_for c tag @ [cb])\<rparr>"
  by (simp add: On.simps [of tag cb c])

lemma On_Wildcard:
  "On WildcardResponse cb c =
     On EndResponse cb
       (On StatsResponse cb
         (On SuccessResponse cb
           (On HeartbeatResponse cb
             (On RecordMessageResponse cb
               (On InvalidRequestResponse cb
                 (On ErrorResponse cb c))))))"
  by (simp add: On.simps [of WildcardResponse cb c])

text \<open>The same, through the seven methods that \<^verbatim>\<open>On\<close> calls for the wildcard.\<close>

lemma On_Wildcard_calls:
  "On WildcardResponse cb c =
     OnEnd cb (OnStats cb (OnSuccess cb (OnHeartbeat cb (OnRecordMessage cb
       (OnInvalidRequest cb (OnError cb c))))))"
  unfolding OnEnd_def OnStats_def OnSuccess_def OnHeartbeat_def OnRecordMessage_def
    OnInvalidRequest_def OnError_def
  by (rule On_Wildcard)

lemma concrete_not_Wildcard:
  "ErrorResponse \<noteq> WildcardResponse" "InvalidRequestResponse \<noteq> WildcardResponse"
  "RecordMessageResponse \<noteq> WildcardResponse" "HeartbeatResponse \<noteq> WildcardResponse"
  "SuccessResponse \<noteq> WildcardResponse" "StatsResponse \<noteq> WildcardResponse"
  "EndResponse \<noteq> WildcardResponse"
  by (simp_all add: ResponseType_defs)

lemma On_keeps:
  "closed (On typ cb c) = closed c \<and> receiveStop (On typ cb c) = receiveStop c
   \<and> conn (On typ cb c) = conn c \<and> errors (On typ cb c) = errors c"
proof (cases "typ = WildcardResponse")
  case True
  then show ?thesis
    by (simp add: On_Wildcard On_concrete concrete_not_Wildcard)
next
  case False
  then show ?thesis by (simp add: On_concrete)
qed

section \<open>One pass of the read loop\<close>

lemma sendErr_keeps:
  "sendErr err c = (c', evs) \<Longrightarrow>
   closed c' = closed c \<and> receiveStop c' = receiveStop c \<and> conn c' = conn c
   \<and> listeners c' = listeners c"
  by (auto simp add: sendErr_def)

lemma fire_result:
  "fire cbs resp c =
     (c\<lparr>errors := errors c @ faults (dispatch_events cbs resp)\<rparr>, dispatch_events cbs resp)"
proof (induction cbs arbitrary: c)
  case Nil
  show ?case by simp
next
  case (Cons cb cbs)
  show ?case
  proof (cases "cb resp")
    case None
    then show ?thesis by (simp add: Cons.IH)
  next
    case (Some err)
    then show ?thesis by (simp add: Cons.IH sendErr_def)
  qed
qed

lemma receive_result:
  "receive r c = (c\<lparr>errors := errors c @ faults (events_of c r)\<rparr>, events_of c r)"
proof (cases r)
  case (Decoded resp)
  then show ?thesis
    by (cases "listeners c (Type resp)") (simp_all add: callbacks_for_def fire_result)
next
  case (ReadError err)
  then show ?thesis
    by (simp add: sendErr_def forwarded_def fmt_Errorf_def)
qed

section \<open>The closed flag\<close>

lemma closed_word_cases: "closed (snd (Close c)) = closed c \<or> (closed c = 0 \<and> closed (snd (Close c)) = 1)"
  by (auto simp add: Close_def Let_def word_greater_zero_iff split: option.splits)

lemma closed_flag_step:
  "closed (apply_operation op c) = closed c
   \<or> (closed c = 0 \<and> closed (apply_operation op c) = 1)"
proof (cases op)
  case (Register tag cb)
  then show ?thesis by (simp add: On_keeps)
next
  case (Receive r)
  then show ?thesis by (simp add: receive_result)
next
  case CallClose
  then show ?thesis using closed_word_cases by simp
next
  case Teardown
  then show ?thesis using closed_word_cases by simp
qed

lemma closed_flag_never_reopens:
  "0 < closed c \<Longrightarrow> 0 < closed (apply_operation op c)"
  using closed_flag_step [of op c] by auto

lemma close_steps_alone:
  "run_two [False, False, False, False] (AtLoad, q, c) = (p', q', c') \<Longrightarrow>
   pc_outcome p' = Some (fst (Close c)) \<and> c' = snd (Close c) \<and> q' = q"
  by (auto simp add: Close_def Let_def split: if_splits option.splits prod.splits)

text \<open>
  C4, at two concurrent calls. The flag is tested by one atomic operation and set by
  another, so two goroutines that call \<^verbatim>\<open>Close\<close> on one open session can both load 0
  before either stores 1: both are then in the release sequence. Run on, the first
  closes the channel and releases the transport, and the second panics in
  \<^verbatim>\<open>close(c.receiveStop)\<close> on the channel that is already closed. (The sequential half
  of C4 is \<open>closed_flag_step\<close> and \<open>closed_flag_never_reopens\<close> above.)
\<close>

theorem concurrent_Close_both_release:
  "run_two [False, True] (AtLoad, AtLoad, open_session) = (AtStore, AtStore, open_session)
   \<and> (case run_two [False, True] (AtLoad, AtLoad, open_session) of
         (p, q, c) \<Rightarrow> releasing p \<and> releasing q)
   \<and> run_two [False, True, False, False, False, True, True] (AtLoad, AtLoad, open_session) =
       (Returned None, Panicked ''close of closed channel'',
        open_session\<lparr>closed := 1, receiveStop := True,
                      conn := Some \<lparr>released = 1, closeResult = None\<rparr>\<rparr>)"
  by (simp add: open_session_def)

section \<open>The action word of the quota delete commands\<close>

text \<open>
  With the client's call succeeding, four of the six targets report the action word that
  the arguments select.
\<close>

lemma quota_delete_reports_action:
  "quotaUsersDelete accepting_client \<lparr>User = [], ClientID = cid\<rparr> [] =
     PrintInfo ''Default user quota deleted''"
  "quotaUsersDelete accepting_client \<lparr>User = [], ClientID = cid\<rparr> (a # args) =
     PrintInfo ''Default user quota updated''"
  "user \<noteq> [] \<Longrightarrow> quotaUsersDelete accepting_client \<lparr>User = user, ClientID = []\<rparr> [] =
     PrintInfo (''Quota for user '' @ user @ '' deleted'')"
  "user \<noteq> [] \<Longrightarrow> quotaUsersDelete accepting_client \<lparr>User = user, ClientID = []\<rparr> (a # args) =
     PrintInfo (''Quota for user '' @ user @ '' updated'')"
  "cid \<noteq> [] \<Longrightarrow> cid \<noteq> ''all'' \<Longrightarrow> cid \<noteq> ''*'' \<Longrightarrow>
   quotaClientsDelete accepting_client \<lparr>User = u, ClientID = cid\<rparr> [] =
     PrintInfo (''Quota for client '' @ cid @ '' deleted'')"
  "cid \<noteq> [] \<Longrightarrow> cid \<noteq> ''all'' \<Longrightarrow> cid \<noteq> ''*'' \<Longrightarrow>
   quotaClientsDelete accepting_client \<lparr>User = u, ClientID = cid\<rparr> (a # args) =
     PrintInfo (''Quota for client '' @ cid @ '' updated'')"
  "quotaClientsDelete accepting_client \<lparr>User = u, ClientID = []\<rparr> [] =
     PrintInfo ''Default client quota deleted''"
  "quotaClientsDelete accepting_client \<lparr>User = u, ClientID = []\<rparr> (a # args) =
     PrintInfo ''Default client quota updated''"
  by (simp_all add: quotaUsersDelete_def quotaClientsDelete_def accepting_client_def)

text \<open>
  C9, at the two targets that miss it. With a user and a client (or all clients) given and
  one positional argument, the success message of \<^verbatim>\<open>quota users delete\<close> still says
  \<^verbatim>\<open>deleted\<close>: these two messages are fixed strings that do not use \<^verbatim>\<open>actionMsg\<close>.
\<close>

theorem quota_users_delete_with_client_reports_deleted:
  "quotaUsersDelete accepting_client \<lparr>User = ''alice'', ClientID = ''app1''\<rparr>
       [''producer_byte_rate'']
     = PrintInfo ''Quota for user alice deleted for client app1''
   \<and> quotaUsersDelete accepting_client \<lparr>User = ''alice'', ClientID = ''*''\<rparr>
       [''producer_byte_rate'']
     = PrintInfo ''Quota for user alice deleted for all clients''"
  by (simp add: quotaUsersDelete_def accepting_client_def)

section \<open>Registration\<close>

lemma callbacks_for_On_concrete:
  "tag \<noteq> WildcardResponse \<Longrightarrow>
   callbacks_for (On tag cb c) t = (if t = tag then callbacks_for c t @ [cb] else callbacks_for c t)"
  by (simp add: On_concrete callbacks_for_def)

lemma callbacks_for_On_Wildcard:
  "callbacks_for (On WildcardResponse cb c) t =
     (if t \<in> {ErrorResponse, InvalidRequestResponse, RecordMessageResponse, HeartbeatResponse,
               SuccessResponse, StatsResponse, EndResponse}
      then callbacks_for c t @ [cb] else callbacks_for c t)"
  unfolding On_Wildcard
  by (simp add: callbacks_for_On_concrete concrete_not_Wildcard)
     (auto simp add: ResponseType_defs)

lemma listeners_On_at_Wildcard:
  "listeners (On tag cb c) WildcardResponse = listeners c WildcardResponse"
proof (cases "tag = WildcardResponse")
  case True
  then show ?thesis
    by (simp add: On_Wildcard On_concrete concrete_not_Wildcard) (simp add: ResponseType_defs)
next
  case False
  then show ?thesis by (simp add: On_concrete)
qed

lemma listeners_registrations_at_Wildcard:
  "listeners (registrations regs c) WildcardResponse = listeners c WildcardResponse"
  by (induction regs arbitrary: c) (auto simp add: listeners_On_at_Wildcard)

text \<open>
  C2. For every callback, registering it under the wildcard with \<^verbatim>\<open>On\<close> appends that
  callback to the list of each of the seven concrete types (Error, InvalidRequest,
  Record, Heartbeat, Success, Stats, End), and leaves the registry's entry for the
  wildcard key as it was; so on a registry that was created empty and written by calls of
  \<^verbatim>\<open>On\<close> only, there is no wildcard key afterwards.
\<close>

theorem On_Wildcard_registers_each_type:
  "(\<forall>tag \<in> set [ErrorResponse, InvalidRequestResponse, RecordMessageResponse,
                  HeartbeatResponse, SuccessResponse, StatsResponse, EndResponse].
       callbacks_for (On WildcardResponse cb c) tag = callbacks_for c tag @ [cb])
   \<and> listeners (On WildcardResponse cb c) WildcardResponse = listeners c WildcardResponse
   \<and> (listeners c0 = Map.empty \<longrightarrow>
        WildcardResponse \<notin> dom (listeners (On WildcardResponse cb (registrations regs c0))))"
proof (intro conjI impI ballI)
  fix tag
  assume "tag \<in> set [ErrorResponse, InvalidRequestResponse, RecordMessageResponse,
                  HeartbeatResponse, SuccessResponse, StatsResponse, EndResponse]"
  then show "callbacks_for (On WildcardResponse cb c) tag = callbacks_for c tag @ [cb]"
    by (simp add: callbacks_for_On_Wildcard)
next
  show "listeners (On WildcardResponse cb c) WildcardResponse = listeners c WildcardResponse"
    by (rule listeners_On_at_Wildcard)
next
  assume "listeners c0 = Map.empty"
  then have "listeners (On WildcardResponse cb (registrations regs c0)) WildcardResponse = None"
    by (simp add: listeners_On_at_Wildcard listeners_registrations_at_Wildcard)
  then show "WildcardResponse \<notin> dom (listeners (On WildcardResponse cb (registrations regs c0)))"
    by (simp add: domIff)
qed

theorem On_Wildcard_registers_each_type_witness:
  "listeners open_session = Map.empty
   \<and> callbacks_for (On WildcardResponse failing_listener
        (registrations [(RecordMessageResponse, quiet_listener)] open_session)) RecordMessageResponse
       = [quiet_listener, failing_listener]
   \<and> callbacks_for (On WildcardResponse failing_listener
        (registrations [(RecordMessageResponse, quiet_listener)] open_session)) EndResponse
       = [failing_listener]
   \<and> WildcardResponse \<notin> dom (listeners (On WildcardResponse failing_listener
        (registrations [(RecordMessageResponse, quiet_listener)] open_session)))"
proof -
  have e: "listeners open_session = Map.empty" by (simp add: open_session_def)
  have before:
    "callbacks_for (registrations [(RecordMessageResponse, quiet_listener)] open_session)
       RecordMessageResponse = [quiet_listener]"
    "callbacks_for (registrations [(RecordMessageResponse, quiet_listener)] open_session)
       EndResponse = []"
    by (simp_all add: callbacks_for_On_concrete concrete_not_Wildcard)
       (simp_all add: callbacks_for_def open_session_def ResponseType_defs)
  from On_Wildcard_registers_each_type
    [of failing_listener "registrations [(RecordMessageResponse, quiet_listener)] open_session"
        open_session "[(RecordMessageResponse, quiet_listener)]"] e before
  show ?thesis by simp
qed

section \<open>The read loop\<close>

lemma dispatch_events_append:
  "dispatch_events (xs @ ys) resp = dispatch_events xs resp @ dispatch_events ys resp"
  by (induction xs) simp_all

lemma invocations_append: "invocations (xs @ ys) = invocations xs @ invocations ys"
  by (induction xs rule: invocations.induct) simp_all

lemma faults_append: "faults (xs @ ys) = faults xs @ faults ys"
  by (induction xs rule: faults.induct) simp_all

lemma invocations_dispatch_events:
  "invocations (dispatch_events cbs resp) = map (\<lambda>cb. (cb, resp)) cbs"
  by (induction cbs) (simp_all add: invocations_append split: option.splits)

lemma faults_dispatch_events:
  "faults (dispatch_events cbs resp) = List.map_filter (\<lambda>cb. cb resp) cbs"
  by (induction cbs) (simp_all add: faults_append List.map_filter_simps split: option.splits)

lemma callbacks_for_errors [simp]: "callbacks_for (c\<lparr>errors := es\<rparr>) t = callbacks_for c t"
  by (simp add: callbacks_for_def)

lemma events_of_errors [simp]: "events_of (c\<lparr>errors := es\<rparr>) r = events_of c r"
  by (cases r) (simp_all add: callbacks_for_def)

text \<open>
  The loop on a session whose stop channel is open: it is still reading after the given
  results, and its events are those of the results, one result after the other.
\<close>

lemma readLoop_result:
  "\<not> receiveStop c \<Longrightarrow>
   readLoop rs c =
     (Reading, c\<lparr>errors := errors c @ faults (concat (map (iteration_events c) rs))\<rparr>,
      concat (map (iteration_events c) rs))"
proof (induction rs arbitrary: c)
  case Nil
  then show ?case by simp
next
  case (Cons r rs)
  let ?c1 = "c\<lparr>errors := errors c @ faults (events_of c r)\<rparr>"
  have open1: "\<not> receiveStop ?c1" using Cons.prems by simp
  have same: "map (iteration_events ?c1) rs = map (iteration_events c) rs"
    by (simp add: iteration_events_def)
  show ?case
    using Cons.prems Cons.IH [OF open1]
    by (simp add: receive_result same iteration_events_def faults_append)
qed

lemma invocations_iterations:
  "invocations (concat (map (iteration_events c) rs)) =
     concat (map (\<lambda>resp. map (\<lambda>cb. (cb, resp)) (callbacks_for c (Type resp))) (decoded rs))"
  by (induction rs rule: decoded.induct)
     (simp_all add: iteration_events_def invocations_append invocations_dispatch_events)


text \<open>
  C5. For every decoded message and every list of subscribers registered under its type,
  when one of them returns a fault, the fault is sent on the error channel right after
  that call, every subscriber of the list (those after it too) is called, in order, and
  the loop (its stop channel open) goes on to read and dispatch the next result.
\<close>

theorem subscriber_fault_does_not_stop_dispatch:
  assumes "\<not> receiveStop c"
    and "listeners c (Type resp) = Some (pre @ cb # post)"
    and "cb resp = Some err"
  shows "snd (receive (Decoded resp) c) =
           dispatch_events pre resp @ [Invoked cb resp, Sent err] @ dispatch_events post resp
         \<and> invocations (snd (receive (Decoded resp) c)) = map (\<lambda>l. (l, resp)) (pre @ cb # post)
         \<and> errors (fst (receive (Decoded resp) c)) =
             errors c @ faults (dispatch_events pre resp) @ [err] @ faults (dispatch_events post resp)
         \<and> fst (readLoop (Decoded resp # nxt # rest) c) = Reading
         \<and> snd (snd (readLoop (Decoded resp # nxt # rest) c)) =
             Read (Decoded resp) # snd (receive (Decoded resp) c)
               @ Read nxt # snd (receive nxt (fst (receive (Decoded resp) c)))
               @ snd (snd (readLoop rest (fst (receive nxt (fst (receive (Decoded resp) c))))))"
proof -
  have cbs: "callbacks_for c (Type resp) = pre @ cb # post"
    using assms(2) by (simp add: callbacks_for_def)
  have ev: "events_of c (Decoded resp) =
      dispatch_events pre resp @ [Invoked cb resp, Sent err] @ dispatch_events post resp"
    using assms(3) by (simp add: cbs dispatch_events_append)
  have r: "receive (Decoded resp) c =
      (c\<lparr>errors := errors c @ faults (events_of c (Decoded resp))\<rparr>, events_of c (Decoded resp))"
    by (rule receive_result)
  have one: "snd (receive (Decoded resp) c) =
           dispatch_events pre resp @ [Invoked cb resp, Sent err] @ dispatch_events post resp"
    by (simp only: r snd_conv ev)
  have two: "invocations (snd (receive (Decoded resp) c)) = map (\<lambda>l. (l, resp)) (pre @ cb # post)"
    by (simp only: r snd_conv events_of.simps cbs invocations_dispatch_events)
  have three: "errors (fst (receive (Decoded resp) c)) =
             errors c @ faults (dispatch_events pre resp) @ [err] @ faults (dispatch_events post resp)"
    using assms(3)
    by (simp add: r cbs dispatch_events_append faults_append del: receive.simps)
  let ?c1 = "fst (receive (Decoded resp) c)"
  let ?c2 = "fst (receive nxt ?c1)"
  have open1: "\<not> receiveStop ?c1"
    using assms(1) by (simp add: receive_result del: receive.simps)
  have open2: "\<not> receiveStop ?c2"
    using open1 by (simp add: receive_result del: receive.simps)
  have four: "fst (readLoop (Decoded resp # nxt # rest) c) = Reading"
    by (simp only: readLoop_result [OF assms(1)] fst_conv)
  have five: "snd (snd (readLoop (Decoded resp # nxt # rest) c)) =
             Read (Decoded resp) # snd (receive (Decoded resp) c)
               @ Read nxt # snd (receive nxt ?c1) @ snd (snd (readLoop rest ?c2))"
    using assms(1) open1 open2 by (simp add: split_beta del: receive.simps)
  from one two three four five show ?thesis by blast
qed

theorem subscriber_fault_does_not_stop_dispatch_witness:
  "\<not> receiveStop (On HeartbeatResponse quiet_listener (On HeartbeatResponse failing_listener open_session))
   \<and> listeners (On HeartbeatResponse quiet_listener (On HeartbeatResponse failing_listener open_session))
        (Type (message HeartbeatResponse)) = Some ([] @ failing_listener # [quiet_listener])
   \<and> failing_listener (message HeartbeatResponse) = Some (ErrorString ''listener failed'')
   \<and> snd (snd (readLoop [Decoded (message HeartbeatResponse), Decoded (message HeartbeatResponse)]
        (On HeartbeatResponse quiet_listener (On HeartbeatResponse failing_listener open_session)))) =
       [Read (Decoded (message HeartbeatResponse)),
        Invoked failing_listener (message HeartbeatResponse), Sent (ErrorString ''listener failed''),
        Invoked quiet_listener (message HeartbeatResponse),
        Read (Decoded (message HeartbeatResponse)),
        Invoked failing_listener (message HeartbeatResponse), Sent (ErrorString ''listener failed''),
        Invoked quiet_listener (message HeartbeatResponse)]"
proof -
  let ?c = "On HeartbeatResponse quiet_listener (On HeartbeatResponse failing_listener open_session)"
  have h1: "\<not> receiveStop ?c" by (simp add: On_keeps open_session_def)
  have h2: "listeners ?c (Type (message HeartbeatResponse)) = Some ([] @ failing_listener # [quiet_listener])"
    by (simp add: On_concrete concrete_not_Wildcard callbacks_for_def message_def open_session_def)
  have h3: "failing_listener (message HeartbeatResponse) = Some (ErrorString ''listener failed'')"
    by (simp add: failing_listener_def)
  have q: "quiet_listener (message HeartbeatResponse) = None"
    by (simp add: quiet_listener_def)
  have cbs: "callbacks_for ?c (Type (message HeartbeatResponse)) = [failing_listener, quiet_listener]"
    using h2 by (simp add: callbacks_for_def)
  from subscriber_fault_does_not_stop_dispatch
    [OF h1 h2 h3, of "Decoded (message HeartbeatResponse)" "[]"] h1 h2 h3
  show ?thesis
    by (simp add: receive_result cbs q del: receive.simps)
qed

text \<open>
  C6 (as amended). When the read fails, the loop forwards exactly one fault: an error whose
  dynamic type is \<^verbatim>\<open>*net.OpError\<close> as it is, any other error (a decode fault, and also a
  transport-level fault of another type, such as a close error) wrapped as
  \<^verbatim>\<open>live: read json: [...]\<close>; the loop (its stop channel open) does not exit, and a
  failed read followed by a well-formed frame gives that one fault followed by the read
  and the dispatch of the frame.
\<close>

theorem read_failure_forwarded_once:
  assumes "\<not> receiveStop c"
  shows "(is_OpError err \<longrightarrow> snd (receive (ReadError err) c) = [Sent err])
         \<and> (\<not> is_OpError err \<longrightarrow>
              snd (receive (ReadError err) c) =
                [Sent (ErrorString (''live: read json: ['' @ Error err @ '']''))])
         \<and> length (faults (snd (receive (ReadError err) c))) = 1
         \<and> errors (fst (receive (ReadError err) c)) = errors c @ [forwarded err]
         \<and> fst (readLoop (ReadError err # Decoded resp # rest) c) = Reading
         \<and> snd (snd (readLoop (ReadError err # Decoded resp # rest) c)) =
             [Read (ReadError err), Sent (forwarded err), Read (Decoded resp)]
               @ dispatch_events (callbacks_for c (Type resp)) resp
               @ concat (map (iteration_events c) rest)"
proof -
  have r: "receive (ReadError err) c = (c\<lparr>errors := errors c @ [forwarded err]\<rparr>, [Sent (forwarded err)])"
    by (simp add: receive_result del: receive.simps)
  have one: "is_OpError err \<longrightarrow> snd (receive (ReadError err) c) = [Sent err]"
    by (simp add: r forwarded_def del: receive.simps)
  have two: "\<not> is_OpError err \<longrightarrow>
              snd (receive (ReadError err) c) =
                [Sent (ErrorString (''live: read json: ['' @ Error err @ '']''))]"
    by (simp add: r forwarded_def del: receive.simps)
  have three: "length (faults (snd (receive (ReadError err) c))) = 1"
    by (simp add: r del: receive.simps)
  have four: "errors (fst (receive (ReadError err) c)) = errors c @ [forwarded err]"
    by (simp add: r del: receive.simps)
  have five: "fst (readLoop (ReadError err # Decoded resp # rest) c) = Reading"
    by (simp only: readLoop_result [OF assms] fst_conv)
  have six: "snd (snd (readLoop (ReadError err # Decoded resp # rest) c)) =
             [Read (ReadError err), Sent (forwarded err), Read (Decoded resp)]
               @ dispatch_events (callbacks_for c (Type resp)) resp
               @ concat (map (iteration_events c) rest)"
    by (simp add: readLoop_result [OF assms] iteration_events_def del: readLoop.simps)
  from one two three four five six show ?thesis by blast
qed


theorem read_failure_forwarded_once_witness:
  "\<not> receiveStop (On HeartbeatResponse quiet_listener open_session)
   \<and> snd (receive (ReadError (OpError ''read tcp: use of closed network connection''))
          (On HeartbeatResponse quiet_listener open_session))
       = [Sent (OpError ''read tcp: use of closed network connection'')]
   \<and> snd (receive (ReadError abnormal_closure)
          (On HeartbeatResponse quiet_listener open_session))
       = [Sent (ErrorString
           ''live: read json: [websocket: close 1006 (abnormal closure): unexpected EOF]'')]
   \<and> snd (snd (readLoop [ReadError (ErrorString ''unexpected end of JSON input''),
                          Decoded (message HeartbeatResponse)]
          (On HeartbeatResponse quiet_listener open_session)))
       = [Read (ReadError (ErrorString ''unexpected end of JSON input'')),
          Sent (ErrorString ''live: read json: [unexpected end of JSON input]''),
          Read (Decoded (message HeartbeatResponse)),
          Invoked quiet_listener (message HeartbeatResponse)]"
proof -
  let ?c = "On HeartbeatResponse quiet_listener open_session"
  have h: "\<not> receiveStop ?c" by (simp add: On_keeps open_session_def)
  have cbs: "callbacks_for ?c (Type (message HeartbeatResponse)) = [quiet_listener]"
    by (simp add: callbacks_for_On_concrete concrete_not_Wildcard message_def)
       (simp add: callbacks_for_def open_session_def)
  have q: "quiet_listener (message HeartbeatResponse) = None"
    by (simp add: quiet_listener_def)
  from read_failure_forwarded_once
         [OF h, of "OpError ''read tcp: use of closed network connection''"
            "message HeartbeatResponse" "[]"]
       read_failure_forwarded_once
         [OF h, of abnormal_closure "message HeartbeatResponse" "[]"]
       read_failure_forwarded_once
         [OF h, of "ErrorString ''unexpected end of JSON input''"
            "message HeartbeatResponse" "[]"]
       h
  show ?thesis
    by (simp add: cbs q forwarded_def abnormal_closure_def del: receive.simps readLoop.simps)
qed

text \<open>
  C6 as stated fails: the read error of a dropped connection is a transport-level fault,
  and the loop forwards it wrapped, not as it is.
\<close>

theorem transport_fault_forwarded_wrapped_counterexample:
  "spec_transport_level abnormal_closure
   \<and> snd (receive (ReadError abnormal_closure) open_session) \<noteq> [Sent abnormal_closure]
   \<and> snd (receive (ReadError abnormal_closure) open_session) =
       [Sent (ErrorString
          ''live: read json: [websocket: close 1006 (abnormal closure): unexpected EOF]'')]"
  by (simp add: abnormal_closure_def sendErr_def fmt_Errorf_def)

text \<open>
  C8. For every sequence of read results, the loop (its stop channel open) handles them in
  arrival order, one at a time: its events are, result by result, the read, then the
  calls of the listeners registered for the message's type, in registration order, each
  followed by the fault it returned, all before the next read. Registration order is the
  order of the calls of \<^verbatim>\<open>On\<close>, which appends.
\<close>

theorem messages_dispatched_in_arrival_order:
  assumes "\<not> receiveStop c"
  shows "fst (readLoop rs c) = Reading
         \<and> snd (snd (readLoop rs c)) = concat (map (iteration_events c) rs)
         \<and> invocations (snd (snd (readLoop rs c))) =
             concat (map (\<lambda>resp. map (\<lambda>cb. (cb, resp)) (callbacks_for c (Type resp)))
                         (decoded rs))
         \<and> (tag \<noteq> WildcardResponse \<longrightarrow>
              callbacks_for (On tag cb c) tag = callbacks_for c tag @ [cb])"
proof -
  note rl = readLoop_result [OF assms, of rs]
  have one: "fst (readLoop rs c) = Reading"
    by (simp only: rl fst_conv)
  have two: "snd (snd (readLoop rs c)) = concat (map (iteration_events c) rs)"
    by (simp only: rl snd_conv)
  have three: "invocations (snd (snd (readLoop rs c))) =
             concat (map (\<lambda>resp. map (\<lambda>cb. (cb, resp)) (callbacks_for c (Type resp)))
                         (decoded rs))"
    by (simp only: two invocations_iterations)
  have four: "tag \<noteq> WildcardResponse \<longrightarrow>
              callbacks_for (On tag cb c) tag = callbacks_for c tag @ [cb]"
    by (simp add: callbacks_for_On_concrete)
  from one two three four show ?thesis by blast
qed

theorem messages_dispatched_in_arrival_order_witness:
  "\<not> receiveStop (On RecordMessageResponse failing_listener
                     (On WildcardResponse quiet_listener open_session))
   \<and> invocations (snd (snd (readLoop
        [Decoded (message HeartbeatResponse), Decoded (message RecordMessageResponse),
         Decoded (message ErrorResponse)]
        (On RecordMessageResponse failing_listener
           (On WildcardResponse quiet_listener open_session)))))
       = [(quiet_listener, message HeartbeatResponse),
          (quiet_listener, message RecordMessageResponse),
          (failing_listener, message RecordMessageResponse),
          (quiet_listener, message ErrorResponse)]
   \<and> RecordMessageResponse \<noteq> WildcardResponse"
proof -
  let ?c = "On RecordMessageResponse failing_listener
              (On WildcardResponse quiet_listener open_session)"
  have h: "\<not> receiveStop ?c" by (simp add: On_keeps open_session_def)
  have base: "callbacks_for open_session t = []" for t
    by (simp add: callbacks_for_def open_session_def)
  have cbs:
    "callbacks_for ?c (Type (message HeartbeatResponse)) = [quiet_listener]"
    "callbacks_for ?c (Type (message RecordMessageResponse)) = [quiet_listener, failing_listener]"
    "callbacks_for ?c (Type (message ErrorResponse)) = [quiet_listener]"
    by (simp_all add: callbacks_for_On_concrete callbacks_for_On_Wildcard concrete_not_Wildcard
          message_def base)
       (simp_all add: ResponseType_defs)
  from messages_dispatched_in_arrival_order
         [OF h, of "[Decoded (message HeartbeatResponse), Decoded (message RecordMessageResponse),
                     Decoded (message ErrorResponse)]" RecordMessageResponse failing_listener]
       h cbs
  show ?thesis
    by (simp add: concrete_not_Wildcard iteration_events_def quiet_listener_def
          failing_listener_def del: readLoop.simps)
qed

end
